theory Spec2Isabelle
  imports Main "HOL-Library.Sublist"
begin

section \<open>The mesh messenger of ResQ: store, relay engine, SOS resender, signal notifier\<close>

text \<open>
  This theory embeds \<^verbatim>\<open>src/mesh/dmasst.py\<close>. Packets are the JSON dictionaries read
  from the datagram socket; the model covers packets whose fields, where present, have
  the types of the wire format (text fields are strings, \<^verbatim>\<open>hops\<close> and \<^verbatim>\<open>ttl\<close> are
  integers, unbounded as Python's are). A field that is absent is \<open>None\<close>, so
  every \<^verbatim>\<open>dict.get(key, default)\<close> of the source is \<open>dict_get\<close> below.
  An SQLite INTEGER column holds a signed 64-bit value: binding a Python integer outside
  that range raises OverflowError, which \<open>insert_message\<close> returns as an error.
  The SQLite table \<^verbatim>\<open>messages\<close> is the list of its rows in rowid order, which is the order
  of insertion; the PRIMARY KEY on \<^verbatim>\<open>id\<close> is the check made by \<open>insert_message\<close>.
  The packets handed to \<^verbatim>\<open>UDPPeer.send_packet\<close> are returned as a list, in the order of
  the calls (a socket error in \<^verbatim>\<open>send_packet\<close> is logged there and changes nothing else).
  The handler, a resender cycle and a notifier iteration contain no \<^verbatim>\<open>await\<close>, so each runs
  from start to end without another task in between. The clock (\<^verbatim>\<open>now_iso()\<close>) is a
  parameter \<open>now\<close> of every operation that reads it; an operation that reads the clock more
  than once within one call gets this one value at each reading.
  Console output (\<^verbatim>\<open>print\<close>) is not modelled, except for the forwarding batch of the
  signal notifier, whose forwarding step is that output.
\<close>

subsection \<open>Constants\<close>

definition MESSAGE_TTL :: int where
  "MESSAGE_TTL = 6"

definition MAX_SOS_RESENDS :: int where
  "MAX_SOS_RESENDS = 6"

subsection \<open>Data\<close>

text \<open>A packet on the wire: the dictionary decoded by \<^verbatim>\<open>UDPPeer.receiver\<close> or encoded by
  \<^verbatim>\<open>UDPPeer.send_packet\<close>. The field \<open>p_type\<close> is the key \<^verbatim>\<open>"type"\<close>.\<close>

record packet =
  p_type :: "string option"
  p_id :: "string option"
  p_origin_id :: "string option"
  p_origin_label :: "string option"
  p_dest_id :: "string option"
  p_subtype :: "string option"
  p_payload :: "string option"
  p_timestamp :: "string option"
  p_hops :: "int option"
  p_ttl :: "int option"
  p_orig_msg_id :: "string option"
  p_from_node :: "string option"
  p_node_id :: "string option"
  p_label :: "string option"

text \<open>The dictionary handed to \<^verbatim>\<open>Storage.insert_message\<close>. Every caller builds it as a
  literal with the key \<^verbatim>\<open>"id"\<close>, read as \<^verbatim>\<open>msg["id"]\<close>; all other keys are read with
  \<^verbatim>\<open>msg.get\<close> and may be absent.\<close>

record message =
  m_id :: string
  m_origin_id :: "string option"
  m_origin_label :: "string option"
  m_dest_id :: "string option"
  m_type :: "string option"
  m_payload :: "string option"
  m_timestamp :: "string option"
  m_hops :: "int option"
  m_ttl :: "int option"
  m_forwarded :: "int option"
  m_acknowledged :: "int option"
  m_resend_count :: "int option"

text \<open>A row of the table \<^verbatim>\<open>messages\<close>.\<close>

record row =
  r_id :: string
  r_origin_id :: string
  r_origin_label :: string
  r_dest_id :: string
  r_type :: string
  r_payload :: string
  r_timestamp :: string
  r_received_at :: string
  r_hops :: int
  r_ttl :: int
  r_forwarded :: int
  r_acknowledged :: int
  r_resend_count :: int

type_synonym storage = "row list"

text \<open>\<^verbatim>\<open>d.get(key, default)\<close> on a field that may be absent.\<close>

fun dict_get :: "'a option \<Rightarrow> 'a \<Rightarrow> 'a" where
  "dict_get None d = d"
| "dict_get (Some v) d = v"

definition empty_packet :: packet where
  "empty_packet = \<lparr> p_type = None, p_id = None, p_origin_id = None, p_origin_label = None,
     p_dest_id = None, p_subtype = None, p_payload = None, p_timestamp = None,
     p_hops = None, p_ttl = None, p_orig_msg_id = None, p_from_node = None,
     p_node_id = None, p_label = None \<rparr>"

subsection \<open>Storage\<close>

text \<open>The exception that leaves \<^verbatim>\<open>Storage.insert_message\<close>: the sqlite3 module raises
  OverflowError while it binds an integer parameter that does not fit a signed 64-bit
  SQLite INTEGER.\<close>

datatype error = OverflowError

definition fits_int64 :: "int \<Rightarrow> bool" where
  "fits_int64 x = (- (2 ^ 63) \<le> x \<and> x < 2 ^ 63)"

text \<open>The integer parameters of the INSERT, with the defaults of \<^verbatim>\<open>msg.get\<close>.\<close>

definition integers_fit :: "message \<Rightarrow> bool" where
  "integers_fit msg =
     (fits_int64 (dict_get (m_hops msg) 0)
      \<and> fits_int64 (dict_get (m_ttl msg) MESSAGE_TTL)
      \<and> fits_int64 (dict_get (m_forwarded msg) 0)
      \<and> fits_int64 (dict_get (m_acknowledged msg) 0)
      \<and> fits_int64 (dict_get (m_resend_count msg) 0))"

text \<open>The ids held by the table; the PRIMARY KEY keeps them distinct.\<close>

definition ids :: "storage \<Rightarrow> string list" where
  "ids st = map r_id st"

definition store_ok :: "storage \<Rightarrow> bool" where
  "store_ok st = distinct (ids st)"

text \<open>\<^verbatim>\<open>Storage.insert_message\<close>. The result is the outcome of the call and the table after
  it. The parameters are bound before the statement runs, so an integer out of range
  raises OverflowError whether or not the id is present; the method catches only
  IntegrityError, so the exception leaves it, and the table is as it was. Otherwise the
  INSERT fails with an IntegrityError when the id is already a key of the table, and the
  method returns False; otherwise the row is appended and the method returns True.\<close>

definition insert_message ::
  "string \<Rightarrow> message \<Rightarrow> storage \<Rightarrow> (error + bool) \<times> storage" where
  "insert_message now msg st =
     (if \<not> integers_fit msg then (Inl OverflowError, st)
      else if m_id msg \<in> set (ids st) then (Inr False, st)
      else (Inr True, st @ [\<lparr> r_id = m_id msg,
              r_origin_id = dict_get (m_origin_id msg) '''',
              r_origin_label = dict_get (m_origin_label msg) '''',
              r_dest_id = dict_get (m_dest_id msg) '''',
              r_type = dict_get (m_type msg) '''',
              r_payload = dict_get (m_payload msg) '''',
              r_timestamp = dict_get (m_timestamp msg) now,
              r_received_at = now,
              r_hops = dict_get (m_hops msg) 0,
              r_ttl = dict_get (m_ttl msg) MESSAGE_TTL,
              r_forwarded = dict_get (m_forwarded msg) 0,
              r_acknowledged = dict_get (m_acknowledged msg) 0,
              r_resend_count = dict_get (m_resend_count msg) 0 \<rparr>]))"

text \<open>The UPDATE statements: every row with the given id is changed, no row when the id
  is absent.\<close>

definition mark_forwarded :: "string \<Rightarrow> storage \<Rightarrow> storage" where
  "mark_forwarded message_id st =
     map (\<lambda>r. if r_id r = message_id then r\<lparr>r_forwarded := 1\<rparr> else r) st"

definition mark_acknowledged :: "string \<Rightarrow> storage \<Rightarrow> storage" where
  "mark_acknowledged message_id st =
     map (\<lambda>r. if r_id r = message_id then r\<lparr>r_acknowledged := 1\<rparr> else r) st"

definition increment_resend :: "string \<Rightarrow> storage \<Rightarrow> storage" where
  "increment_resend message_id st =
     map (\<lambda>r. if r_id r = message_id then r\<lparr>r_resend_count := r_resend_count r + 1\<rparr> else r) st"

text \<open>\<^verbatim>\<open>SELECT * FROM messages WHERE id = ?\<close> with \<^verbatim>\<open>fetchone\<close>.\<close>

definition get_message :: "string \<Rightarrow> storage \<Rightarrow> row option" where
  "get_message message_id st = find (\<lambda>r. r_id r = message_id) st"

text \<open>\<^verbatim>\<open>WHERE forwarded=0 OR (type='SOS' AND acknowledged=0)\<close>. The query has no ORDER BY;
  the rows are taken in rowid order, the order of the table scan.\<close>

definition is_pending :: "row \<Rightarrow> bool" where
  "is_pending r = (r_forwarded r = 0 \<or> (r_type r = ''SOS'' \<and> r_acknowledged r = 0))"

definition get_pending_messages :: "storage \<Rightarrow> row list" where
  "get_pending_messages st = filter is_pending st"

text \<open>\<^verbatim>\<open>WHERE type='SOS' AND acknowledged=0 AND ttl > 0 ORDER BY rowid ASC\<close>. The parameter
  \<^verbatim>\<open>age_limit_seconds\<close> and the cutoff computed from it are not used by the query.\<close>

definition is_unacknowledged_sos :: "row \<Rightarrow> bool" where
  "is_unacknowledged_sos r = (r_type r = ''SOS'' \<and> r_acknowledged r = 0 \<and> r_ttl r > 0)"

definition get_unacknowledged_sos :: "storage \<Rightarrow> row list" where
  "get_unacknowledged_sos st = filter is_unacknowledged_sos st"

subsection \<open>The message handler\<close>

text \<open>\<^verbatim>\<open>on_incoming_message\<close>, for the node \<open>node_id\<close>. An exception of \<^verbatim>\<open>insert_message\<close>
  leaves the handler at that call, before the acknowledgement and the relay, and is caught
  by \<^verbatim>\<open>UDPPeer.receiver\<close> (\<^verbatim>\<open>except Exception\<close>), which goes on with the next packet: the
  branch \<open>Inl\<close> below. The result is the table after the
  call and the packets sent during it.\<close>

definition ack_packet :: "string \<Rightarrow> string \<Rightarrow> string \<Rightarrow> packet" where
  "ack_packet now node_id mid =
     empty_packet\<lparr> p_type := Some ''DM_ACK'', p_orig_msg_id := Some mid,
       p_from_node := Some node_id, p_timestamp := Some now \<rparr>"

definition message_of_packet :: "string \<Rightarrow> string \<Rightarrow> packet \<Rightarrow> message" where
  "message_of_packet now mid msg =
     \<lparr> m_id = mid,
       m_origin_id = Some (dict_get (p_origin_id msg) ''''),
       m_origin_label = Some (dict_get (p_origin_label msg) ''''),
       m_dest_id = Some (dict_get (p_dest_id msg) ''''),
       m_type = Some (dict_get (p_subtype msg) ''SOS''),
       m_payload = Some (dict_get (p_payload msg) ''''),
       m_timestamp = Some (dict_get (p_timestamp msg) now),
       m_hops = Some (dict_get (p_hops msg) 0),
       m_ttl = Some (dict_get (p_ttl msg) MESSAGE_TTL),
       m_forwarded = None, m_acknowledged = None, m_resend_count = None \<rparr>"

definition on_incoming_message ::
  "string \<Rightarrow> string \<Rightarrow> packet \<Rightarrow> storage \<Rightarrow> storage \<times> packet list" where
  "on_incoming_message now node_id msg st =
     (let t = dict_get (p_type msg) '''' in
      if t = ''ANNOUNCE'' then (st, [])
      else if t = ''DM_MSG'' then
        (let dest = dict_get (p_dest_id msg) '''' in
         if dest \<noteq> '''' \<and> dest \<noteq> node_id then (st, [])
         else
           (case p_id msg of
              None \<Rightarrow> (st, [])
            | Some mid \<Rightarrow>
                if mid = '''' then (st, [])
                else
                  (let hops = dict_get (p_hops msg) 0;
                       ttl = dict_get (p_ttl msg) MESSAGE_TTL
                   in case insert_message now (message_of_packet now mid msg) st of
                        (Inl raised, st') \<Rightarrow> (st', [])
                      | (Inr inserted, st') \<Rightarrow>
                          if \<not> inserted then (st', [])
                          else
                            (let ack = ack_packet now node_id mid
                             in if hops < ttl
                                then (st', [ack, msg\<lparr>p_hops := Some (hops + 1)\<rparr>])
                                else (st', [ack])))))
      else if t = ''DM_ACK'' then
        (case p_orig_msg_id msg of
           None \<Rightarrow> (st, [])
         | Some orig_mid \<Rightarrow>
             if orig_mid = '''' then (st, [])
             else
               (case get_message orig_mid st of
                  None \<Rightarrow> (st, [])
                | Some stored \<Rightarrow> (mark_acknowledged orig_mid st, [])))
      else (st, []))"

subsection \<open>The SOS resender\<close>

definition resend_packet :: "row \<Rightarrow> packet" where
  "resend_packet row =
     empty_packet\<lparr> p_type := Some ''DM_MSG'', p_id := Some (r_id row),
       p_origin_id := Some (r_origin_id row), p_origin_label := Some (r_origin_label row),
       p_dest_id := Some (r_dest_id row), p_subtype := Some (r_type row),
       p_payload := Some (r_payload row), p_timestamp := Some (r_timestamp row),
       p_hops := Some 0, p_ttl := Some (r_ttl row) \<rparr>"

text \<open>The \<^verbatim>\<open>for row in rows\<close> loop of one cycle: \<open>rows\<close> is the snapshot fetched at the
  start of the cycle, the table is updated as the loop goes.\<close>

fun sos_resend_rows :: "string \<Rightarrow> row list \<Rightarrow> storage \<Rightarrow> storage \<times> packet list" where
  "sos_resend_rows node_id [] st = (st, [])"
| "sos_resend_rows node_id (row # rows) st =
     (if r_origin_id row \<noteq> node_id then sos_resend_rows node_id rows st
      else if r_resend_count row \<ge> MAX_SOS_RESENDS then sos_resend_rows node_id rows st
      else
        (let (st', sent) = sos_resend_rows node_id rows (increment_resend (r_id row) st)
         in (st', resend_packet row # sent)))"

definition sos_cycle :: "string \<Rightarrow> storage \<Rightarrow> storage \<times> packet list" where
  "sos_cycle node_id st = sos_resend_rows node_id (get_unacknowledged_sos st) st"

text \<open>The rows of the table that a cycle resends.\<close>

abbreviation resend_due :: "string \<Rightarrow> row \<Rightarrow> bool" where
  "resend_due node_id r \<equiv>
     is_unacknowledged_sos r \<and> r_origin_id r = node_id \<and> r_resend_count r < MAX_SOS_RESENDS"

text \<open>\<^verbatim>\<open>sos_resender_task\<close> is a \<^verbatim>\<open>while True\<close> loop that never returns; its first
  \<open>n\<close> cycles, with the packets they send one list per cycle, oldest cycle first.\<close>

fun sos_resender_task :: "nat \<Rightarrow> string \<Rightarrow> storage \<Rightarrow> storage \<times> packet list list" where
  "sos_resender_task 0 node_id st = (st, [])"
| "sos_resender_task (Suc n) node_id st =
     (let (st1, sent) = sos_cycle node_id st;
          (st2, later) = sos_resender_task n node_id st1
      in (st2, sent # later))"

subsection \<open>The signal notifier\<close>

text \<open>One iteration of \<^verbatim>\<open>SignalNotifier.run\<close> with the probe result \<open>online\<close>. The state is
  the flag \<^verbatim>\<open>_seen_online\<close> and the table. The third component is \<open>Some batch\<close> when the
  iteration forwards, with the rows forwarded in order, and \<open>None\<close> when it does not.\<close>

definition forward_all :: "row list \<Rightarrow> storage \<Rightarrow> storage" where
  "forward_all pending st = foldl (\<lambda>s row. mark_forwarded (r_id row) s) st pending"

definition notifier_step ::
  "bool \<Rightarrow> bool \<times> storage \<Rightarrow> (bool \<times> storage) \<times> row list option" where
  "notifier_step online s =
     (case s of (seen_online, st) \<Rightarrow>
        if online \<and> \<not> seen_online then
          (let pending = get_pending_messages st
           in ((True, forward_all pending st), Some pending))
        else if \<not> online then ((False, st), None)
        else ((seen_online, st), None))"

text \<open>The loop of \<^verbatim>\<open>SignalNotifier.run\<close> over a finite sequence of probe results: the
  state at the end and what each iteration forwarded.\<close>

fun notifier_run ::
  "bool list \<Rightarrow> bool \<times> storage \<Rightarrow> (bool \<times> storage) \<times> row list option list" where
  "notifier_run [] s = (s, [])"
| "notifier_run (online # rest) s =
     (let (s1, out) = notifier_step online s;
          (s2, outs) = notifier_run rest s1
      in (s2, out # outs))"

subsection \<open>Example packets and tables\<close>

text \<open>A message of node A addressed to node C, as \<^verbatim>\<open>build_outgoing_message\<close> makes it.\<close>

definition ex_directed :: packet where
  "ex_directed = empty_packet\<lparr> p_type := Some ''DM_MSG'', p_id := Some ''m1'',
     p_origin_id := Some ''A'', p_dest_id := Some ''C'', p_subtype := Some ''ALERT'',
     p_payload := Some ''help'', p_hops := Some 0, p_ttl := Some 6 \<rparr>"

text \<open>A broadcast SOS of node A, and the row that node B stores for it at time t1.\<close>

definition ex_sos :: packet where
  "ex_sos = empty_packet\<lparr> p_type := Some ''DM_MSG'', p_id := Some ''m2'',
     p_origin_id := Some ''A'', p_origin_label := Some ''alpha'', p_dest_id := Some '''',
     p_subtype := Some ''SOS'', p_payload := Some ''help'', p_timestamp := Some ''t0'',
     p_hops := Some 0, p_ttl := Some 6 \<rparr>"

definition ex_sos_row :: row where
  "ex_sos_row = \<lparr> r_id = ''m2'', r_origin_id = ''A'', r_origin_label = ''alpha'',
     r_dest_id = '''', r_type = ''SOS'', r_payload = ''help'', r_timestamp = ''t0'',
     r_received_at = ''t1'', r_hops = 0, r_ttl = 6, r_forwarded = 0, r_acknowledged = 0,
     r_resend_count = 0 \<rparr>"


text \<open>Two dictionaries for \<^verbatim>\<open>insert_message\<close>: one that carries status flags, one that
  does not.\<close>

definition ex_flagged :: message where
  "ex_flagged = \<lparr> m_id = ''m3'', m_origin_id = Some ''A'', m_origin_label = Some ''alpha'',
     m_dest_id = Some '''', m_type = Some ''SOS'', m_payload = Some ''help'',
     m_timestamp = Some ''t0'', m_hops = Some 0, m_ttl = Some 6,
     m_forwarded = Some 1, m_acknowledged = Some 1, m_resend_count = Some 6 \<rparr>"

definition ex_plain :: message where
  "ex_plain = \<lparr> m_id = ''m3'', m_origin_id = Some ''A'', m_origin_label = Some ''alpha'',
     m_dest_id = Some '''', m_type = Some ''SOS'', m_payload = Some ''help'',
     m_timestamp = Some ''t0'', m_hops = Some 0, m_ttl = Some 6,
     m_forwarded = None, m_acknowledged = None, m_resend_count = None \<rparr>"

text \<open>Two packets without \<^verbatim>\<open>subtype\<close>: one that carries \<^verbatim>\<open>ttl = 0\<close>, one without \<^verbatim>\<open>ttl\<close>.\<close>

definition ex_unmarked_ttl0 :: packet where
  "ex_unmarked_ttl0 = empty_packet\<lparr> p_type := Some ''DM_MSG'', p_id := Some ''m4'',
     p_origin_id := Some ''A'', p_payload := Some ''help'', p_ttl := Some 0 \<rparr>"

definition ex_unmarked :: packet where
  "ex_unmarked = empty_packet\<lparr> p_type := Some ''DM_MSG'', p_id := Some ''m5'',
     p_origin_id := Some ''A'', p_payload := Some ''help'' \<rparr>"

text \<open>An acknowledgement sent by node C for the message m2.\<close>

definition ex_ack :: packet where
  "ex_ack = empty_packet\<lparr> p_type := Some ''DM_ACK'', p_orig_msg_id := Some ''m2'',
     p_from_node := Some ''C'', p_timestamp := Some ''t2'' \<rparr>"

text \<open>A table of node A: an SOS of its own, an SOS of its own that has been resent six
  times, and an SOS that node B originated.\<close>

definition ex_table :: storage where
  "ex_table = [ex_sos_row,
     ex_sos_row\<lparr> r_id := ''m7'', r_resend_count := 6 \<rparr>,
     ex_sos_row\<lparr> r_id := ''m8'', r_origin_id := ''B'' \<rparr>]"

section \<open>Properties\<close>

subsection \<open>The dedup gate\<close>

lemma insert_message_overflow:
  "\<not> integers_fit msg \<Longrightarrow> insert_message now msg st = (Inl OverflowError, st)"
  by (simp add: insert_message_def)

lemma insert_message_present:
  "integers_fit msg \<Longrightarrow> m_id msg \<in> set (ids st) \<Longrightarrow> insert_message now msg st = (Inr False, st)"
  by (simp add: insert_message_def)

lemma insert_message_table_present:
  "m_id msg \<in> set (ids st) \<Longrightarrow> snd (insert_message now msg st) = st"
  by (simp add: insert_message_def)

lemma insert_message_True_iff:
  "fst (insert_message now msg st) = Inr True \<longleftrightarrow> integers_fit msg \<and> m_id msg \<notin> set (ids st)"
  by (simp add: insert_message_def)

lemma store_ok_empty: "store_ok []"
  by (simp add: store_ok_def ids_def)

lemma insert_message_store_ok:
  "store_ok st \<Longrightarrow> store_ok (snd (insert_message now msg st))"
  by (simp add: store_ok_def insert_message_def ids_def)

lemma insert_message_repeat:
  "m_id msg' \<in> set (ids st1) \<Longrightarrow> ((\<lambda>s. snd (insert_message now' msg' s)) ^^ n) st1 = st1"
  by (induction n) (simp_all add: insert_message_table_present)

text \<open>
  C2, as stated, fails where the dictionary carries status flags: the first insertion of
  \<open>ex_flagged\<close> returns True and creates a record whose forwarded and acknowledged are 1
  and whose resend count is 6.
\<close>

theorem insert_message_keeps_carried_flags:
  "m_id ex_flagged \<notin> set (ids []) \<and> integers_fit ex_flagged
   \<and> fst (insert_message ''t1'' ex_flagged []) = Inr True
   \<and> map r_forwarded (snd (insert_message ''t1'' ex_flagged [])) = [1]
   \<and> map r_acknowledged (snd (insert_message ''t1'' ex_flagged [])) = [1]
   \<and> map r_resend_count (snd (insert_message ''t1'' ex_flagged [])) = [6]"
  by (simp add: insert_message_def ex_flagged_def ids_def integers_fit_def fits_int64_def
      MESSAGE_TTL_def)

text \<open>
  C2, amended: for message dictionaries whose integer fields (hops, ttl, forwarded,
  acknowledged, resend count, with their defaults) fit a signed 64-bit SQLite INTEGER, the
  first \<open>insert_message\<close> for an id returns True and appends one record whose forwarded,
  acknowledged and resend count are the values the dictionary carries, 0 for each key it
  does not carry. A call for an id that is present returns False and leaves the table as
  it was; so after the first call, any number \<open>n\<close> of further insertions of a message with
  the same id, at any time, leave the table as it was and the next one still returns
  False. (An integer out of that range makes the call raise OverflowError and leaves the
  table as it was: \<open>insert_message_overflow\<close>.)
\<close>

theorem insert_message_dedup:
  assumes "m_id msg' = m_id msg" and "integers_fit msg" and "integers_fit msg'"
  shows "(m_id msg \<notin> set (ids st) \<longrightarrow>
            (\<exists>r. insert_message now msg st = (Inr True, st @ [r]) \<and> r_id r = m_id msg
               \<and> r_forwarded r = dict_get (m_forwarded msg) 0
               \<and> r_acknowledged r = dict_get (m_acknowledged msg) 0
               \<and> r_resend_count r = dict_get (m_resend_count msg) 0))
       \<and> (m_id msg \<in> set (ids st) \<longrightarrow> insert_message now msg st = (Inr False, st))
       \<and> ((\<lambda>s. snd (insert_message now' msg' s)) ^^ n) (snd (insert_message now msg st))
            = snd (insert_message now msg st)
       \<and> fst (insert_message now' msg'
            (((\<lambda>s. snd (insert_message now' msg' s)) ^^ n) (snd (insert_message now msg st))))
           = Inr False"
proof -
  have in_after: "m_id msg' \<in> set (ids (snd (insert_message now msg st)))"
    using assms by (simp add: insert_message_def ids_def)
  have rep: "((\<lambda>s. snd (insert_message now' msg' s)) ^^ n) (snd (insert_message now msg st))
            = snd (insert_message now msg st)"
    using in_after by (rule insert_message_repeat)
  have fresh: "m_id msg \<notin> set (ids st) \<longrightarrow>
            (\<exists>r. insert_message now msg st = (Inr True, st @ [r]) \<and> r_id r = m_id msg
               \<and> r_forwarded r = dict_get (m_forwarded msg) 0
               \<and> r_acknowledged r = dict_get (m_acknowledged msg) 0
               \<and> r_resend_count r = dict_get (m_resend_count msg) 0)"
    using assms(2) by (simp add: insert_message_def)
  have dup: "m_id msg \<in> set (ids st) \<longrightarrow> insert_message now msg st = (Inr False, st)"
    using assms(2) by (simp add: insert_message_def)
  have again: "fst (insert_message now' msg' (snd (insert_message now msg st))) = Inr False"
    using in_after assms(3) by (simp add: insert_message_present)
  show ?thesis using rep fresh dup again by simp
qed

theorem insert_message_dedup_witness:
  "m_id ex_flagged = m_id ex_plain \<and> integers_fit ex_plain \<and> integers_fit ex_flagged
   \<and> m_id ex_plain \<notin> set (ids [])
   \<and> fst (insert_message ''t1'' ex_plain []) = Inr True
   \<and> map r_forwarded (snd (insert_message ''t1'' ex_plain [])) = [0]
   \<and> map r_acknowledged (snd (insert_message ''t1'' ex_plain [])) = [0]
   \<and> map r_resend_count (snd (insert_message ''t1'' ex_plain [])) = [0]
   \<and> ((\<lambda>s. snd (insert_message ''t2'' ex_flagged s)) ^^ 3) (snd (insert_message ''t1'' ex_plain []))
       = snd (insert_message ''t1'' ex_plain [])
   \<and> fst (insert_message ''t2'' ex_flagged
        (((\<lambda>s. snd (insert_message ''t2'' ex_flagged s)) ^^ 3)
           (snd (insert_message ''t1'' ex_plain [])))) = Inr False
   \<and> m_id ex_flagged \<in> set (ids (snd (insert_message ''t1'' ex_plain [])))
   \<and> insert_message ''t2'' ex_flagged (snd (insert_message ''t1'' ex_plain []))
       = (Inr False, snd (insert_message ''t1'' ex_plain []))"
proof -
  have pre: "m_id ex_flagged = m_id ex_plain \<and> m_id ex_plain \<notin> set (ids [])"
    by (simp add: ex_flagged_def ex_plain_def ids_def)
  have fit: "integers_fit ex_plain" "integers_fit ex_flagged"
    by (simp_all add: ex_flagged_def ex_plain_def integers_fit_def fits_int64_def MESSAGE_TTL_def)
  have flags: "dict_get (m_forwarded ex_plain) 0 = 0 \<and> dict_get (m_acknowledged ex_plain) 0 = 0
      \<and> dict_get (m_resend_count ex_plain) 0 = 0"
    by (simp add: ex_plain_def)
  note th = insert_message_dedup [where msg' = ex_flagged and msg = ex_plain and st = "[]"
      and now = "''t1''" and now' = "''t2''" and n = 3]
  from th pre fit flags obtain r where
    r: "insert_message ''t1'' ex_plain [] = (Inr True, [] @ [r])"
    "r_forwarded r = 0" "r_acknowledged r = 0" "r_resend_count r = 0"
    by auto
  from th pre fit have rest:
    "((\<lambda>s. snd (insert_message ''t2'' ex_flagged s)) ^^ 3) (snd (insert_message ''t1'' ex_plain []))
       = snd (insert_message ''t1'' ex_plain [])
     \<and> fst (insert_message ''t2'' ex_flagged
        (((\<lambda>s. snd (insert_message ''t2'' ex_flagged s)) ^^ 3)
           (snd (insert_message ''t1'' ex_plain [])))) = Inr False"
    by blast
  have present: "m_id ex_flagged \<in> set (ids (snd (insert_message ''t1'' ex_plain [])))"
    using fit(1) by (simp add: ex_flagged_def ex_plain_def insert_message_def ids_def)
  with fit(2) insert_message_dedup [where msg' = ex_flagged and msg = ex_flagged
      and st = "snd (insert_message ''t1'' ex_plain [])" and now = "''t2''"]
  have again: "insert_message ''t2'' ex_flagged (snd (insert_message ''t1'' ex_plain []))
       = (Inr False, snd (insert_message ''t1'' ex_plain []))"
    by blast
  from pre fit r rest present again show ?thesis by auto
qed

subsection \<open>Messages addressed to another node\<close>

text \<open>
  C1, as stated, at node B: the packet \<open>ex_directed\<close> is a DM_MSG addressed to C with
  hops below ttl, and B sends nothing; in particular it does not re-emit the packet with
  hops + 1.
\<close>

theorem directed_elsewhere_not_relayed:
  "p_type ex_directed = Some ''DM_MSG'' \<and> p_dest_id ex_directed = Some ''C'' \<and> ''C'' \<noteq> ''B''
   \<and> dict_get (p_hops ex_directed) 0 < dict_get (p_ttl ex_directed) MESSAGE_TTL
   \<and> ex_directed\<lparr>p_hops := Some 1\<rparr> \<notin> set (snd (on_incoming_message ''t1'' ''B'' ex_directed []))
   \<and> snd (on_incoming_message ''t1'' ''B'' ex_directed []) = []"
  by (simp add: ex_directed_def empty_packet_def on_incoming_message_def MESSAGE_TTL_def)

text \<open>
  C1, amended: a DM_MSG whose \<^verbatim>\<open>dest_id\<close> is non-empty and differs from the id of the
  receiving node is ignored entirely. The table is left as it was and no packet is sent:
  no relay, no acknowledgement, nothing stored.
\<close>

theorem directed_elsewhere_ignored:
  assumes "p_type msg = Some ''DM_MSG''"
    and "p_dest_id msg = Some dest" and "dest \<noteq> ''''" and "dest \<noteq> node_id"
  shows "on_incoming_message now node_id msg st = (st, [])"
  using assms by (simp add: on_incoming_message_def)

theorem directed_elsewhere_ignored_witness:
  "p_type ex_directed = Some ''DM_MSG'' \<and> p_dest_id ex_directed = Some ''C''
   \<and> on_incoming_message ''t1'' ''B'' ex_directed [] = ([], [])"
  using directed_elsewhere_ignored [of ex_directed "''C''" "''B''" "''t1''" "[]"]
  by (simp add: ex_directed_def empty_packet_def)

subsection \<open>Duplicates\<close>

text \<open>
  C3: a DM_MSG whose id is already in the table is dropped: no packet is sent (no second
  acknowledgement, no relay) and the table, with the stored hops, is left as it was.
  In particular the second delivery of any DM_MSG packet, at whatever time, changes
  nothing and sends nothing.
\<close>

theorem duplicate_dropped:
  assumes "p_type msg = Some ''DM_MSG''"
  shows "(p_id msg = Some mid \<and> mid \<in> set (ids st) \<longrightarrow>
            on_incoming_message now node_id msg st = (st, []))
       \<and> on_incoming_message now' node_id msg (fst (on_incoming_message now node_id msg st))
           = (fst (on_incoming_message now node_id msg st), [])"
proof
  show "p_id msg = Some mid \<and> mid \<in> set (ids st) \<longrightarrow>
            on_incoming_message now node_id msg st = (st, [])"
    using assms
    by (simp add: on_incoming_message_def Let_def insert_message_def message_of_packet_def)
next
  show "on_incoming_message now' node_id msg (fst (on_incoming_message now node_id msg st))
           = (fst (on_incoming_message now node_id msg st), [])"
    using assms
    by (auto simp add: on_incoming_message_def Let_def insert_message_def message_of_packet_def
        integers_fit_def ids_def split: option.splits prod.splits if_splits)
qed

theorem duplicate_dropped_witness:
  "p_type ex_sos = Some ''DM_MSG'' \<and> p_id ex_sos = Some ''m2'' \<and> ''m2'' \<in> set (ids [ex_sos_row])
   \<and> on_incoming_message ''t2'' ''B'' ex_sos [ex_sos_row] = ([ex_sos_row], [])"
  using duplicate_dropped [of ex_sos "''m2''" "[ex_sos_row]" "''t2''" "''B''" "''t2''"]
  by (simp add: ex_sos_def ex_sos_row_def empty_packet_def ids_def)

subsection \<open>First admission\<close>

text \<open>What the handler sends is nothing, the acknowledgement alone, or the acknowledgement
  and then the incoming packet with \<^verbatim>\<open>hops\<close> raised by one, the last only where hops < ttl.\<close>

lemma on_incoming_message_sent:
  "snd (on_incoming_message now node_id msg st) = []
   \<or> (\<exists>mid. snd (on_incoming_message now node_id msg st) = [ack_packet now node_id mid])
   \<or> (\<exists>mid. dict_get (p_hops msg) 0 < dict_get (p_ttl msg) MESSAGE_TTL
         \<and> snd (on_incoming_message now node_id msg st)
             = [ack_packet now node_id mid, msg\<lparr>p_hops := Some (dict_get (p_hops msg) 0 + 1)\<rparr>])"
  by (auto simp add: on_incoming_message_def Let_def insert_message_def
      split: option.splits if_splits)

text \<open>A DM_MSG whose hops or ttl does not fit a signed 64-bit integer makes the insert
  raise: nothing is stored and nothing is sent.\<close>

lemma on_incoming_message_overflow:
  assumes "p_type msg = Some ''DM_MSG''"
    and "\<not> (fits_int64 (dict_get (p_hops msg) 0) \<and> fits_int64 (dict_get (p_ttl msg) MESSAGE_TTL))"
  shows "on_incoming_message now node_id msg st = (st, [])"
  using assms
  by (auto simp add: on_incoming_message_def Let_def insert_message_def message_of_packet_def
      integers_fit_def split: option.splits)

text \<open>A DM_MSG that is not addressed to another node, carries a non-empty id that is not in
  the table, and whose hops and ttl fit a signed 64-bit integer, reaches the dedup gate
  and is admitted: this is what the handler does then.\<close>

lemma on_incoming_message_admitted:
  assumes "p_type msg = Some ''DM_MSG''"
    and "dict_get (p_dest_id msg) '''' = '''' \<or> dict_get (p_dest_id msg) '''' = node_id"
    and "p_id msg = Some mid" and "mid \<noteq> ''''" and "mid \<notin> set (ids st)"
    and "fits_int64 (dict_get (p_hops msg) 0)"
    and "fits_int64 (dict_get (p_ttl msg) MESSAGE_TTL)"
  shows "on_incoming_message now node_id msg st =
     (st @ [\<lparr> r_id = mid,
              r_origin_id = dict_get (p_origin_id msg) '''',
              r_origin_label = dict_get (p_origin_label msg) '''',
              r_dest_id = dict_get (p_dest_id msg) '''',
              r_type = dict_get (p_subtype msg) ''SOS'',
              r_payload = dict_get (p_payload msg) '''',
              r_timestamp = dict_get (p_timestamp msg) now,
              r_received_at = now,
              r_hops = dict_get (p_hops msg) 0,
              r_ttl = dict_get (p_ttl msg) MESSAGE_TTL,
              r_forwarded = 0, r_acknowledged = 0, r_resend_count = 0 \<rparr>],
      if dict_get (p_hops msg) 0 < dict_get (p_ttl msg) MESSAGE_TTL
      then [ack_packet now node_id mid, msg\<lparr>p_hops := Some (dict_get (p_hops msg) 0 + 1)\<rparr>]
      else [ack_packet now node_id mid])"
proof -
  have fit: "integers_fit (message_of_packet now mid msg)"
    using assms(6,7) by (simp add: integers_fit_def message_of_packet_def fits_int64_def)
  from assms(1-5) fit show ?thesis
    by (auto simp add: on_incoming_message_def Let_def insert_message_def message_of_packet_def)
qed

lemma ex_sos_admitted:
  "on_incoming_message ''t1'' ''B'' ex_sos [] =
     ([ex_sos_row], [ack_packet ''t1'' ''B'' ''m2'', ex_sos\<lparr>p_hops := Some 1\<rparr>])"
  by (simp add: on_incoming_message_def ex_sos_def ex_sos_row_def empty_packet_def
      insert_message_def message_of_packet_def ids_def MESSAGE_TTL_def integers_fit_def
      fits_int64_def)



text \<open>
  C5: whenever the handler re-emits a DM_MSG, for whatever incoming packet and table, the
  packet sent is the incoming packet with \<^verbatim>\<open>hops\<close> set to the incoming hops plus 1 (an
  absent \<^verbatim>\<open>hops\<close> counts as 0) and every other field as it came, and hops < ttl held.
  And it does re-emit: a first-seen DM_MSG (admitted at the dedup gate: not addressed to
  another node, non-empty id not in the table, hops and ttl within the signed 64-bit
  range) with hops < ttl makes the handler send the acknowledgement and then that packet.
\<close>

theorem relay_increments_hops_only:
  assumes "p_type msg = Some ''DM_MSG''"
  shows "(\<forall>out \<in> set (snd (on_incoming_message now node_id msg st)).
            p_type out = Some ''DM_MSG'' \<longrightarrow>
              out = msg\<lparr>p_hops := Some (dict_get (p_hops msg) 0 + 1)\<rparr>
            \<and> dict_get (p_hops msg) 0 < dict_get (p_ttl msg) MESSAGE_TTL
            \<and> p_hops out = Some (dict_get (p_hops msg) 0 + 1)
            \<and> p_type out = p_type msg \<and> p_id out = p_id msg \<and> p_ttl out = p_ttl msg
            \<and> p_origin_id out = p_origin_id msg \<and> p_origin_label out = p_origin_label msg
            \<and> p_dest_id out = p_dest_id msg \<and> p_subtype out = p_subtype msg
            \<and> p_payload out = p_payload msg \<and> p_timestamp out = p_timestamp msg)
     \<and> ((dict_get (p_dest_id msg) '''' = '''' \<or> dict_get (p_dest_id msg) '''' = node_id)
          \<and> p_id msg = Some mid \<and> mid \<noteq> '''' \<and> mid \<notin> set (ids st)
          \<and> fits_int64 (dict_get (p_hops msg) 0)
          \<and> fits_int64 (dict_get (p_ttl msg) MESSAGE_TTL)
          \<and> dict_get (p_hops msg) 0 < dict_get (p_ttl msg) MESSAGE_TTL
         \<longrightarrow> snd (on_incoming_message now node_id msg st)
               = [ack_packet now node_id mid,
                  msg\<lparr>p_hops := Some (dict_get (p_hops msg) 0 + 1)\<rparr>])"
proof (intro conjI ballI impI)
  fix out
  assume out: "out \<in> set (snd (on_incoming_message now node_id msg st))"
    and ty: "p_type out = Some ''DM_MSG''"
  have ack: "p_type (ack_packet now node_id m) \<noteq> Some ''DM_MSG''" for m
    by (simp add: ack_packet_def)
  from on_incoming_message_sent [of now node_id msg st] out ty ack
  have "out = msg\<lparr>p_hops := Some (dict_get (p_hops msg) 0 + 1)\<rparr>
      \<and> dict_get (p_hops msg) 0 < dict_get (p_ttl msg) MESSAGE_TTL"
    by auto
  then show "out = msg\<lparr>p_hops := Some (dict_get (p_hops msg) 0 + 1)\<rparr>"
    and "dict_get (p_hops msg) 0 < dict_get (p_ttl msg) MESSAGE_TTL"
    and "p_hops out = Some (dict_get (p_hops msg) 0 + 1)"
    and "p_type out = p_type msg" and "p_id out = p_id msg" and "p_ttl out = p_ttl msg"
    and "p_origin_id out = p_origin_id msg" and "p_origin_label out = p_origin_label msg"
    and "p_dest_id out = p_dest_id msg" and "p_subtype out = p_subtype msg"
    and "p_payload out = p_payload msg" and "p_timestamp out = p_timestamp msg"
    by simp_all
next
  assume "(dict_get (p_dest_id msg) '''' = '''' \<or> dict_get (p_dest_id msg) '''' = node_id)
          \<and> p_id msg = Some mid \<and> mid \<noteq> '''' \<and> mid \<notin> set (ids st)
          \<and> fits_int64 (dict_get (p_hops msg) 0)
          \<and> fits_int64 (dict_get (p_ttl msg) MESSAGE_TTL)
          \<and> dict_get (p_hops msg) 0 < dict_get (p_ttl msg) MESSAGE_TTL"
  with assms show "snd (on_incoming_message now node_id msg st)
               = [ack_packet now node_id mid,
                  msg\<lparr>p_hops := Some (dict_get (p_hops msg) 0 + 1)\<rparr>]"
    by (simp add: on_incoming_message_admitted)
qed

theorem relay_increments_hops_only_witness:
  "p_type ex_sos = Some ''DM_MSG'' \<and> dict_get (p_dest_id ex_sos) '''' = ''''
   \<and> p_id ex_sos = Some ''m2'' \<and> ''m2'' \<notin> set (ids [])
   \<and> fits_int64 (dict_get (p_hops ex_sos) 0) \<and> fits_int64 (dict_get (p_ttl ex_sos) MESSAGE_TTL)
   \<and> dict_get (p_hops ex_sos) 0 < dict_get (p_ttl ex_sos) MESSAGE_TTL
   \<and> snd (on_incoming_message ''t1'' ''B'' ex_sos [])
       = [ack_packet ''t1'' ''B'' ''m2'', ex_sos\<lparr>p_hops := Some 1\<rparr>]
   \<and> ex_sos\<lparr>p_hops := Some 1\<rparr> \<in> set (snd (on_incoming_message ''t1'' ''B'' ex_sos []))
   \<and> p_type (ex_sos\<lparr>p_hops := Some 1\<rparr>) = Some ''DM_MSG''
   \<and> p_ttl (ex_sos\<lparr>p_hops := Some 1\<rparr>) = p_ttl ex_sos"
proof -
  have pre: "p_type ex_sos = Some ''DM_MSG'' \<and> dict_get (p_dest_id ex_sos) '''' = ''''
     \<and> p_id ex_sos = Some ''m2'' \<and> ''m2'' \<notin> set (ids [])
     \<and> fits_int64 (dict_get (p_hops ex_sos) 0) \<and> fits_int64 (dict_get (p_ttl ex_sos) MESSAGE_TTL)
     \<and> dict_get (p_hops ex_sos) 0 < dict_get (p_ttl ex_sos) MESSAGE_TTL"
    by (simp add: ex_sos_def empty_packet_def ids_def MESSAGE_TTL_def fits_int64_def)
  have one: "dict_get (p_hops ex_sos) 0 + 1 = 1"
    by (simp add: ex_sos_def empty_packet_def)
  note th = relay_increments_hops_only [where msg = ex_sos and node_id = "''B''"
      and mid = "''m2''" and st = "[]" and now = "''t1''"]
  from pre th have "snd (on_incoming_message ''t1'' ''B'' ex_sos [])
       = [ack_packet ''t1'' ''B'' ''m2'',
          ex_sos\<lparr>p_hops := Some (dict_get (p_hops ex_sos) 0 + 1)\<rparr>]"
    by blast
  then have sent: "snd (on_incoming_message ''t1'' ''B'' ex_sos [])
       = [ack_packet ''t1'' ''B'' ''m2'', ex_sos\<lparr>p_hops := Some 1\<rparr>]"
    by (simp only: one)
  have ty: "p_type (ex_sos\<lparr>p_hops := Some 1\<rparr>) = Some ''DM_MSG''"
    by (simp add: ex_sos_def empty_packet_def)
  from sent have mem: "ex_sos\<lparr>p_hops := Some 1\<rparr> \<in> set (snd (on_incoming_message ''t1'' ''B'' ex_sos []))"
    by simp
  from pre th mem ty have "p_ttl (ex_sos\<lparr>p_hops := Some 1\<rparr>) = p_ttl ex_sos"
    by blast
  with pre sent mem ty show ?thesis by blast
qed

subsection \<open>Packets without a subtype\<close>

text \<open>
  C10, as stated, fails for a packet that carries \<^verbatim>\<open>ttl = 0\<close>: \<open>ex_unmarked_ttl0\<close> has an
  id and no subtype, node B admits it and stores it with kind SOS, and the query of the
  SOS resender does not return it.
\<close>

theorem unmarked_ttl0_not_resend_candidate:
  "p_type ex_unmarked_ttl0 = Some ''DM_MSG'' \<and> p_id ex_unmarked_ttl0 = Some ''m4''
   \<and> p_subtype ex_unmarked_ttl0 = None
   \<and> map r_id (fst (on_incoming_message ''t1'' ''B'' ex_unmarked_ttl0 [])) = [''m4'']
   \<and> map r_type (fst (on_incoming_message ''t1'' ''B'' ex_unmarked_ttl0 [])) = [''SOS'']
   \<and> get_unacknowledged_sos (fst (on_incoming_message ''t1'' ''B'' ex_unmarked_ttl0 [])) = []"
  by (simp add: ex_unmarked_ttl0_def empty_packet_def on_incoming_message_def insert_message_def
      message_of_packet_def ids_def get_unacknowledged_sos_def is_unacknowledged_sos_def
      integers_fit_def fits_int64_def)

text \<open>
  C10, amended: a DM_MSG that carries an id and no subtype and is admitted (it is not
  addressed to another node, its id is non-empty and not in the table, and its hops and
  ttl fit the signed 64-bit INTEGER columns) is stored with kind
  SOS and with the ttl it carries, 6 when it carries none. The new row is returned by
  \<open>get_pending_messages\<close>, and it is returned by \<open>get_unacknowledged_sos\<close> exactly when
  its ttl is positive, so always when the packet carries no ttl.
\<close>

theorem unmarked_stored_as_sos:
  assumes "p_type msg = Some ''DM_MSG''"
    and "dict_get (p_dest_id msg) '''' = '''' \<or> dict_get (p_dest_id msg) '''' = node_id"
    and "p_id msg = Some mid" and "mid \<noteq> ''''" and "mid \<notin> set (ids st)"
    and "fits_int64 (dict_get (p_hops msg) 0)"
    and "fits_int64 (dict_get (p_ttl msg) MESSAGE_TTL)"
    and "p_subtype msg = None"
  shows "\<exists>r. fst (on_incoming_message now node_id msg st) = st @ [r]
     \<and> r_id r = mid \<and> r_type r = ''SOS''
     \<and> r_ttl r = dict_get (p_ttl msg) MESSAGE_TTL \<and> (p_ttl msg = None \<longrightarrow> r_ttl r = 6)
     \<and> r \<in> set (get_pending_messages (fst (on_incoming_message now node_id msg st)))
     \<and> (r \<in> set (get_unacknowledged_sos (fst (on_incoming_message now node_id msg st)))
          \<longleftrightarrow> 0 < r_ttl r)"
  using assms
  by (simp add: on_incoming_message_admitted get_pending_messages_def is_pending_def
      get_unacknowledged_sos_def is_unacknowledged_sos_def MESSAGE_TTL_def)

theorem unmarked_stored_as_sos_witness:
  "p_type ex_unmarked = Some ''DM_MSG'' \<and> p_id ex_unmarked = Some ''m5''
   \<and> p_subtype ex_unmarked = None \<and> p_ttl ex_unmarked = None \<and> ''m5'' \<notin> set (ids [])
   \<and> fits_int64 (dict_get (p_hops ex_unmarked) 0)
   \<and> fits_int64 (dict_get (p_ttl ex_unmarked) MESSAGE_TTL)
   \<and> (\<exists>r. fst (on_incoming_message ''t1'' ''B'' ex_unmarked []) = [r]
     \<and> r_type r = ''SOS'' \<and> r_ttl r = 6
     \<and> r \<in> set (get_pending_messages (fst (on_incoming_message ''t1'' ''B'' ex_unmarked [])))
     \<and> r \<in> set (get_unacknowledged_sos (fst (on_incoming_message ''t1'' ''B'' ex_unmarked []))))"
proof -
  have pre: "p_type ex_unmarked = Some ''DM_MSG'' \<and> p_id ex_unmarked = Some ''m5''
     \<and> p_subtype ex_unmarked = None \<and> p_ttl ex_unmarked = None \<and> p_dest_id ex_unmarked = None
     \<and> ''m5'' \<notin> set (ids [])
     \<and> fits_int64 (dict_get (p_hops ex_unmarked) 0)
     \<and> fits_int64 (dict_get (p_ttl ex_unmarked) MESSAGE_TTL)"
    by (simp add: ex_unmarked_def empty_packet_def ids_def fits_int64_def MESSAGE_TTL_def)
  from pre unmarked_stored_as_sos [where msg = ex_unmarked and node_id = "''B''"
      and mid = "''m5''" and st = "[]" and now = "''t1''"]
  obtain r where "fst (on_incoming_message ''t1'' ''B'' ex_unmarked []) = [] @ [r]"
    and "r_type r = ''SOS''" and "p_ttl ex_unmarked = None \<longrightarrow> r_ttl r = 6"
    and "r \<in> set (get_pending_messages (fst (on_incoming_message ''t1'' ''B'' ex_unmarked [])))"
    and "r \<in> set (get_unacknowledged_sos (fst (on_incoming_message ''t1'' ''B'' ex_unmarked [])))
          \<longleftrightarrow> 0 < r_ttl r"
    by auto
  with pre show ?thesis by auto
qed

subsection \<open>Acknowledgements\<close>

text \<open>
  C6, as stated, fails: node B stores the SOS \<open>ex_sos\<close> that node A originated, then
  receives a DM_ACK that names it, and the row at B has acknowledged = 1.
\<close>

theorem ack_marks_at_non_origin:
  "r_origin_id ex_sos_row \<noteq> ''B'' \<and> r_acknowledged ex_sos_row = 0
   \<and> fst (on_incoming_message ''t1'' ''B'' ex_sos []) = [ex_sos_row]
   \<and> p_type ex_ack = Some ''DM_ACK'' \<and> p_orig_msg_id ex_ack = Some (r_id ex_sos_row)
   \<and> map r_acknowledged (fst (on_incoming_message ''t2'' ''B'' ex_ack [ex_sos_row])) = [1]"
  by (simp add: ex_sos_admitted)
    (simp add: ex_ack_def ex_sos_row_def empty_packet_def on_incoming_message_def
      get_message_def mark_acknowledged_def)

lemma get_message_None_iff: "get_message mid st = None \<longleftrightarrow> mid \<notin> set (ids st)"
  by (auto simp add: get_message_def ids_def find_None_iff)

lemma mark_acknowledged_absent: "mid \<notin> set (ids st) \<Longrightarrow> mark_acknowledged mid st = st"
  by (induction st) (auto simp add: mark_acknowledged_def ids_def)

lemma on_incoming_ack:
  assumes "p_type msg = Some ''DM_ACK''" and "p_orig_msg_id msg = Some mid" and "mid \<noteq> ''''"
  shows "on_incoming_message now node_id msg st = (mark_acknowledged mid st, [])"
proof (cases "get_message mid st")
  case None
  then have "mark_acknowledged mid st = st"
    by (simp add: get_message_None_iff mark_acknowledged_absent)
  with None assms show ?thesis by (simp add: on_incoming_message_def)
next
  case (Some stored)
  with assms show ?thesis by (simp add: on_incoming_message_def)
qed

text \<open>
  C6, amended: at any node, whether or not it originated the message, a DM_ACK with a
  non-empty \<^verbatim>\<open>orig_msg_id\<close> sets acknowledged to 1 in every stored row with that id and
  changes nothing else; no row changes when the id is not in the table, and no packet
  is sent.
\<close>

theorem ack_marks_every_holder:
  assumes "p_type msg = Some ''DM_ACK''" and "p_orig_msg_id msg = Some mid" and "mid \<noteq> ''''"
  shows "length (fst (on_incoming_message now node_id msg st)) = length st
     \<and> (\<forall>i < length st. fst (on_incoming_message now node_id msg st) ! i =
           (if r_id (st ! i) = mid then (st ! i)\<lparr>r_acknowledged := 1\<rparr> else st ! i))
     \<and> snd (on_incoming_message now node_id msg st) = []"
  using assms by (simp add: on_incoming_ack mark_acknowledged_def)

theorem ack_marks_every_holder_witness:
  "p_type ex_ack = Some ''DM_ACK'' \<and> p_orig_msg_id ex_ack = Some ''m2'' \<and> r_id ex_sos_row = ''m2''
   \<and> r_origin_id ex_sos_row \<noteq> ''B''
   \<and> fst (on_incoming_message ''t2'' ''B'' ex_ack [ex_sos_row]) ! 0 = ex_sos_row\<lparr>r_acknowledged := 1\<rparr>"
  using ack_marks_every_holder [where msg = ex_ack and mid = "''m2''" and now = "''t2''"
      and node_id = "''B''" and st = "[ex_sos_row]"]
  by (simp add: ex_ack_def empty_packet_def ex_sos_row_def)

subsection \<open>The SOS resender\<close>

lemma sos_resend_rows_sent:
  "snd (sos_resend_rows node_id rows st) =
     map resend_packet
       (filter (\<lambda>r. r_origin_id r = node_id \<and> r_resend_count r < MAX_SOS_RESENDS) rows)"
  by (induction rows arbitrary: st) (simp_all add: split_beta)

lemma increment_resend_length: "length (increment_resend mid st) = length st"
  by (simp add: increment_resend_def)

lemma increment_resend_other:
  "i < length st \<Longrightarrow> r_id (st ! i) \<noteq> mid \<Longrightarrow> increment_resend mid st ! i = st ! i"
  by (simp add: increment_resend_def)

lemma increment_resend_id:
  "i < length st \<Longrightarrow> r_id (increment_resend mid st ! i) = r_id (st ! i)"
  by (simp add: increment_resend_def)

lemma sos_resend_rows_length:
  "length (fst (sos_resend_rows node_id rows st)) = length st"
  by (induction rows arbitrary: st) (simp_all add: split_beta increment_resend_length)

lemma sos_resend_rows_untouched:
  assumes "i < length st"
    and "\<forall>r \<in> set rows. r_origin_id r = node_id \<and> r_resend_count r < MAX_SOS_RESENDS
            \<longrightarrow> r_id r \<noteq> r_id (st ! i)"
  shows "fst (sos_resend_rows node_id rows st) ! i = st ! i"
  using assms
proof (induction rows arbitrary: st)
  case Nil
  then show ?case by simp
next
  case (Cons a rows)
  show ?case
  proof (cases "r_origin_id a = node_id \<and> r_resend_count a < MAX_SOS_RESENDS")
    case True
    with Cons.prems have neq: "r_id (st ! i) \<noteq> r_id a" by auto
    let ?st1 = "increment_resend (r_id a) st"
    have same: "?st1 ! i = st ! i"
      using Cons.prems(1) neq by (simp add: increment_resend_other)
    have "fst (sos_resend_rows node_id rows ?st1) ! i = ?st1 ! i"
      using Cons.prems same by (intro Cons.IH) (simp_all add: increment_resend_length)
    with True same show ?thesis by (simp add: split_beta)
  next
    case False
    have "fst (sos_resend_rows node_id rows st) ! i = st ! i"
      using Cons.prems by (intro Cons.IH) simp_all
    with False show ?thesis by auto
  qed
qed

lemma sos_resend_rows_ids:
  "ids (fst (sos_resend_rows node_id rows st)) = ids st"
proof (induction rows arbitrary: st)
  case Nil
  then show ?case by simp
next
  case (Cons a rows)
  have "ids (increment_resend (r_id a) st) = ids st"
    by (simp add: ids_def increment_resend_def)
  with Cons.IH show ?case by (simp add: split_beta)
qed

lemma store_ok_same_id:
  assumes "store_ok st" and "i < length st" and "r \<in> set st" and "r_id r = r_id (st ! i)"
  shows "r = st ! i"
proof -
  from assms(1) have "inj_on r_id (set st)"
    by (simp add: store_ok_def ids_def distinct_map)
  moreover have "st ! i \<in> set st" using assms(2) by simp
  ultimately show ?thesis using assms(3,4) by (auto dest: inj_onD)
qed

lemma sos_cycle_sent:
  "snd (sos_cycle node_id st) = map resend_packet (filter (resend_due node_id) st)"
proof -
  have "filter (\<lambda>r. r_origin_id r = node_id \<and> r_resend_count r < MAX_SOS_RESENDS)
          (filter is_unacknowledged_sos st) = filter (resend_due node_id) st"
    by (induction st) auto
  then show ?thesis
    by (simp add: sos_cycle_def sos_resend_rows_sent get_unacknowledged_sos_def)
qed

lemma sos_cycle_untouched:
  assumes "store_ok st" and "i < length st"
    and "r_origin_id (st ! i) \<noteq> node_id \<or> r_resend_count (st ! i) \<ge> MAX_SOS_RESENDS"
  shows "fst (sos_cycle node_id st) ! i = st ! i"
  unfolding sos_cycle_def
proof (rule sos_resend_rows_untouched [OF assms(2)], intro ballI impI)
  fix r
  assume r: "r \<in> set (get_unacknowledged_sos st)"
    and due: "r_origin_id r = node_id \<and> r_resend_count r < MAX_SOS_RESENDS"
  show "r_id r \<noteq> r_id (st ! i)"
  proof
    assume "r_id r = r_id (st ! i)"
    moreover from r have "r \<in> set st" by (simp add: get_unacknowledged_sos_def)
    ultimately have "r = st ! i" using assms(1,2) by (simp add: store_ok_same_id)
    with due assms(3) show False by auto
  qed
qed

lemma sos_cycle_not_sent:
  assumes "store_ok st" and "i < length st"
    and "r_origin_id (st ! i) \<noteq> node_id \<or> r_resend_count (st ! i) \<ge> MAX_SOS_RESENDS"
    and "p \<in> set (snd (sos_cycle node_id st))"
  shows "p_id p \<noteq> Some (r_id (st ! i))"
proof
  assume eq: "p_id p = Some (r_id (st ! i))"
  from assms(4) obtain r where r: "r \<in> set st" "resend_due node_id r" "p = resend_packet r"
    by (auto simp add: sos_cycle_sent)
  from r(3) eq have "r_id r = r_id (st ! i)" by (simp add: resend_packet_def)
  with r(1) assms(1,2) have "r = st ! i" by (simp add: store_ok_same_id)
  with r(2) assms(3) show False by auto
qed

lemma sos_cycle_store_ok: "store_ok st \<Longrightarrow> store_ok (fst (sos_cycle node_id st))"
  by (simp add: store_ok_def sos_cycle_def sos_resend_rows_ids)

lemma sos_cycle_length: "length (fst (sos_cycle node_id st)) = length st"
  by (simp add: sos_cycle_def sos_resend_rows_length)

lemma sos_resender_task_untouched:
  assumes "store_ok st" and "i < length st"
    and "r_origin_id (st ! i) \<noteq> node_id \<or> r_resend_count (st ! i) \<ge> MAX_SOS_RESENDS"
  shows "length (fst (sos_resender_task n node_id st)) = length st
     \<and> fst (sos_resender_task n node_id st) ! i = st ! i
     \<and> (\<forall>sent \<in> set (snd (sos_resender_task n node_id st)).
           \<forall>p \<in> set sent. p_id p \<noteq> Some (r_id (st ! i)))"
  using assms
proof (induction n arbitrary: st)
  case 0
  then show ?case by simp
next
  case (Suc n)
  let ?st1 = "fst (sos_cycle node_id st)"
  have same: "?st1 ! i = st ! i" using Suc.prems by (rule sos_cycle_untouched)
  have len: "length ?st1 = length st" by (rule sos_cycle_length)
  have ok1: "store_ok ?st1" using Suc.prems(1) by (rule sos_cycle_store_ok)
  have ih: "length (fst (sos_resender_task n node_id ?st1)) = length ?st1
     \<and> fst (sos_resender_task n node_id ?st1) ! i = ?st1 ! i
     \<and> (\<forall>sent \<in> set (snd (sos_resender_task n node_id ?st1)).
           \<forall>p \<in> set sent. p_id p \<noteq> Some (r_id (?st1 ! i)))"
    using ok1 Suc.prems(2,3) same len by (intro Suc.IH) simp_all
  have first: "\<forall>p \<in> set (snd (sos_cycle node_id st)). p_id p \<noteq> Some (r_id (st ! i))"
    using Suc.prems by (auto dest: sos_cycle_not_sent)
  from ih same len first show ?case by (simp add: split_beta)
qed


text \<open>
  C8, as stated, fails: the query takes no node id, and at node B it returns the
  unacknowledged SOS that node A originated.
\<close>

theorem unacknowledged_sos_any_origin:
  "r_origin_id ex_sos_row \<noteq> ''B'' \<and> get_unacknowledged_sos [ex_sos_row] = [ex_sos_row]"
  by (simp add: ex_sos_row_def get_unacknowledged_sos_def is_unacknowledged_sos_def)

text \<open>
  C8, amended: \<open>get_unacknowledged_sos\<close> returns exactly the rows of kind SOS with
  acknowledged = 0 and ttl > 0, in rowid order (oldest first), whatever their origin. The
  restriction to the messages this node originated is made by the resender, which skips
  every returned row of another origin: each packet a cycle sends has this node as origin.
\<close>

theorem unacknowledged_sos_query:
  "get_unacknowledged_sos st =
      filter (\<lambda>r. r_type r = ''SOS'' \<and> r_acknowledged r = 0 \<and> 0 < r_ttl r) st
   \<and> set (get_unacknowledged_sos st) =
      {r \<in> set st. r_type r = ''SOS'' \<and> r_acknowledged r = 0 \<and> 0 < r_ttl r}
   \<and> subseq (get_unacknowledged_sos st) st
   \<and> (\<forall>p \<in> set (snd (sos_cycle node_id st)). p_origin_id p = Some node_id)"
proof -
  have eq: "get_unacknowledged_sos st =
      filter (\<lambda>r. r_type r = ''SOS'' \<and> r_acknowledged r = 0 \<and> 0 < r_ttl r) st"
    by (simp add: get_unacknowledged_sos_def is_unacknowledged_sos_def cong: filter_cong)
  have own: "\<forall>p \<in> set (snd (sos_cycle node_id st)). p_origin_id p = Some node_id"
    by (auto simp add: sos_cycle_def sos_resend_rows_sent resend_packet_def)
  show ?thesis unfolding eq using own by auto
qed

theorem unacknowledged_sos_query_witness:
  "get_unacknowledged_sos ex_table = ex_table
   \<and> snd (sos_cycle ''A'' ex_table) = [resend_packet ex_sos_row]
   \<and> p_origin_id (resend_packet ex_sos_row) = Some ''A''"
proof -
  have due: "filter (resend_due ''A'') ex_table = [ex_sos_row]"
    by (simp add: ex_table_def ex_sos_row_def MAX_SOS_RESENDS_def is_unacknowledged_sos_def)
  have sent: "snd (sos_cycle ''A'' ex_table) = [resend_packet ex_sos_row]"
    by (simp add: sos_cycle_sent due)
  have all: "filter (\<lambda>r. r_type r = ''SOS'' \<and> r_acknowledged r = 0 \<and> 0 < r_ttl r) ex_table
      = ex_table"
    by (simp add: ex_table_def ex_sos_row_def)
  from unacknowledged_sos_query [of ex_table "''A''"] sent all show ?thesis by simp
qed

text \<open>
  C7: in a cycle a packet is sent exactly for the rows that are unacknowledged SOS with
  positive ttl, originated by this node, with resend count below \<open>MAX_SOS_RESENDS\<close>. A
  row of another origin, or whose resend count has reached \<open>MAX_SOS_RESENDS\<close>, is still
  in the table, at its place and equal to what it was, after any number \<open>n\<close> of cycles,
  and none of these cycles sends a packet with its id.
\<close>

theorem sos_resend_only_own_below_cap:
  assumes "store_ok st"
  shows "snd (sos_cycle node_id st) =
       map resend_packet
         (filter (\<lambda>r. is_unacknowledged_sos r \<and> r_origin_id r = node_id
                      \<and> r_resend_count r < MAX_SOS_RESENDS) st)
     \<and> (\<forall>i < length st.
          r_origin_id (st ! i) \<noteq> node_id \<or> r_resend_count (st ! i) \<ge> MAX_SOS_RESENDS \<longrightarrow>
            length (fst (sos_resender_task n node_id st)) = length st
          \<and> fst (sos_resender_task n node_id st) ! i = st ! i
          \<and> (\<forall>sent \<in> set (snd (sos_resender_task n node_id st)).
                \<forall>p \<in> set sent. p_id p \<noteq> Some (r_id (st ! i))))"
  using assms sos_resender_task_untouched [of st _ node_id n]
  by (simp add: sos_cycle_sent)

theorem sos_resend_only_own_below_cap_witness:
  "store_ok ex_table
   \<and> r_resend_count (ex_table ! 1) \<ge> MAX_SOS_RESENDS \<and> r_origin_id (ex_table ! 2) \<noteq> ''A''
   \<and> snd (sos_cycle ''A'' ex_table) = [resend_packet ex_sos_row]
   \<and> fst (sos_resender_task (Suc (Suc 0)) ''A'' ex_table) ! 1 = ex_table ! 1
   \<and> fst (sos_resender_task (Suc (Suc 0)) ''A'' ex_table) ! 2 = ex_table ! 2
   \<and> length (fst (sos_resender_task (Suc (Suc 0)) ''A'' ex_table)) = 3"
proof -
  have ok: "store_ok ex_table"
    by (simp add: store_ok_def ids_def ex_table_def ex_sos_row_def)
  have pre: "1 < length ex_table \<and> 2 < length ex_table \<and> length ex_table = 3
      \<and> r_resend_count (ex_table ! 1) \<ge> MAX_SOS_RESENDS \<and> r_origin_id (ex_table ! 2) \<noteq> ''A''"
    by (simp add: ex_table_def ex_sos_row_def MAX_SOS_RESENDS_def)
  have due: "filter (\<lambda>r. is_unacknowledged_sos r \<and> r_origin_id r = ''A''
                      \<and> r_resend_count r < MAX_SOS_RESENDS) ex_table = [ex_sos_row]"
    by (simp add: ex_table_def ex_sos_row_def MAX_SOS_RESENDS_def is_unacknowledged_sos_def)
  note th = sos_resend_only_own_below_cap [OF ok, of "''A''" "Suc (Suc 0)"]
  from th due have sent: "snd (sos_cycle ''A'' ex_table) = [resend_packet ex_sos_row]"
    by simp
  from th pre have "fst (sos_resender_task (Suc (Suc 0)) ''A'' ex_table) ! 1 = ex_table ! 1
     \<and> fst (sos_resender_task (Suc (Suc 0)) ''A'' ex_table) ! 2 = ex_table ! 2
     \<and> length (fst (sos_resender_task (Suc (Suc 0)) ''A'' ex_table)) = length ex_table"
    by blast
  with ok pre sent show ?thesis by simp
qed

text \<open>Between two cycles the handler and the signal notifier run. Neither removes a row
  nor changes the id, the origin or the resend count of one, and the ids, distinct in the
  empty table, stay distinct; so a row that a cycle leaves alone is left alone by every
  later cycle.\<close>

lemma forward_all_keeps:
  "length (forward_all pending st) = length st
   \<and> (\<forall>i < length st. r_id (forward_all pending st ! i) = r_id (st ! i)
        \<and> r_origin_id (forward_all pending st ! i) = r_origin_id (st ! i)
        \<and> r_resend_count (forward_all pending st ! i) = r_resend_count (st ! i))"
  unfolding forward_all_def
  by (induction pending arbitrary: st) (simp_all add: mark_forwarded_def)

lemma notifier_step_keeps:
  "length (snd (fst (notifier_step online (seen, st)))) = length st
   \<and> (\<forall>i < length st.
        r_id (snd (fst (notifier_step online (seen, st))) ! i) = r_id (st ! i)
        \<and> r_origin_id (snd (fst (notifier_step online (seen, st))) ! i) = r_origin_id (st ! i)
        \<and> r_resend_count (snd (fst (notifier_step online (seen, st))) ! i)
            = r_resend_count (st ! i))"
  using forward_all_keeps [of "get_pending_messages st" st]
  by (simp add: notifier_step_def Let_def)

lemma notifier_step_store_ok:
  "store_ok st \<Longrightarrow> store_ok (snd (fst (notifier_step online (seen, st))))"
proof -
  have "map r_id (snd (fst (notifier_step online (seen, st)))) = map r_id st"
    using notifier_step_keeps [of online seen st] by (simp add: list_eq_iff_nth_eq)
  then show "store_ok st \<Longrightarrow> store_ok (snd (fst (notifier_step online (seen, st))))"
    by (simp add: store_ok_def ids_def)
qed

lemma on_incoming_message_shape:
  "fst (on_incoming_message now node_id msg st) = st
   \<or> (\<exists>r. fst (on_incoming_message now node_id msg st) = st @ [r] \<and> r_id r \<notin> set (ids st))
   \<or> (\<exists>mid. fst (on_incoming_message now node_id msg st) = mark_acknowledged mid st)"
  by (auto simp add: on_incoming_message_def Let_def insert_message_def message_of_packet_def
      split: option.splits if_splits)

lemma on_incoming_message_keeps:
  "length st \<le> length (fst (on_incoming_message now node_id msg st))
   \<and> (store_ok st \<longrightarrow> store_ok (fst (on_incoming_message now node_id msg st)))
   \<and> (\<forall>i < length st.
        r_id (fst (on_incoming_message now node_id msg st) ! i) = r_id (st ! i)
        \<and> r_origin_id (fst (on_incoming_message now node_id msg st) ! i) = r_origin_id (st ! i)
        \<and> r_resend_count (fst (on_incoming_message now node_id msg st) ! i)
            = r_resend_count (st ! i))"
proof -
  have ack: "ids (mark_acknowledged mid st) = ids st" for mid
    by (simp add: ids_def mark_acknowledged_def)
  from on_incoming_message_shape [of now node_id msg st] show ?thesis
  proof (elim disjE exE conjE)
    assume "fst (on_incoming_message now node_id msg st) = st"
    then show ?thesis by simp
  next
    fix r
    assume "fst (on_incoming_message now node_id msg st) = st @ [r]" and "r_id r \<notin> set (ids st)"
    then show ?thesis by (simp add: nth_append store_ok_def ids_def)
  next
    fix mid
    assume "fst (on_incoming_message now node_id msg st) = mark_acknowledged mid st"
    then show ?thesis using ack [of mid]
      by (simp add: store_ok_def) (simp add: mark_acknowledged_def)
  qed
qed

subsection \<open>The signal notifier\<close>

lemma notifier_step_seen: "fst (fst (notifier_step online (seen, st))) = online"
  by (auto simp add: notifier_step_def Let_def)

lemma notifier_step_out:
  "(snd (notifier_step online (seen, st)) \<noteq> None) = (online \<and> \<not> seen)"
  by (auto simp add: notifier_step_def Let_def)

lemma notifier_run_length: "length (snd (notifier_run obs s)) = length obs"
  by (induction obs arbitrary: s) (simp_all add: split_beta)

lemma notifier_run_edges:
  "i < length obs \<Longrightarrow>
     (snd (notifier_run obs (seen, st)) ! i \<noteq> None)
       = (obs ! i \<and> \<not> (if i = 0 then seen else obs ! (i - 1)))"
proof (induction obs arbitrary: seen st i)
  case Nil
  then show ?case by simp
next
  case (Cons online rest)
  define st1 where "st1 = snd (fst (notifier_step online (seen, st)))"
  have step: "fst (notifier_step online (seen, st)) = (online, st1)"
    unfolding st1_def by (simp add: prod_eq_iff notifier_step_seen)
  show ?case
  proof (cases i)
    case 0
    then show ?thesis using notifier_step_out [of online seen st] by (simp add: split_beta)
  next
    case (Suc j)
    with Cons.prems have j: "j < length rest" by simp
    from Cons.IH [OF j, of online st1] Suc step show ?thesis
      by (cases j) (simp_all add: split_beta)
  qed
qed

text \<open>
  C9: an iteration forwards exactly when the probe is online and the previous one (the
  flag \<^verbatim>\<open>_seen_online\<close>, False at start) was not. From offline, the first online
  observation forwards the pending rows and the second does nothing; an offline
  observation resets the flag, and the next online observation forwards the rows that are
  pending then. In a sequence of observations, the iteration \<open>i\<close> forwards exactly when
  observation \<open>i\<close> is online and observation \<open>i - 1\<close> is offline.
\<close>

theorem forwarding_once_per_edge:
  "notifier_step True (False, st)
      = ((True, forward_all (get_pending_messages st) st), Some (get_pending_messages st))
   \<and> notifier_step True (True, st) = ((True, st), None)
   \<and> notifier_step False (seen, st) = ((False, st), None)
   \<and> snd (notifier_run [True, True] (seen, st))
      = [if seen then None else Some (get_pending_messages st), None]
   \<and> snd (notifier_run [True, False, True] (False, st))
      = [Some (get_pending_messages st), None,
         Some (get_pending_messages (forward_all (get_pending_messages st) st))]
   \<and> length (snd (notifier_run obs (seen, st))) = length obs
   \<and> (\<forall>i < length obs.
        (snd (notifier_run obs (seen, st)) ! i \<noteq> None)
          = (obs ! i \<and> \<not> (if i = 0 then seen else obs ! (i - 1))))"
proof -
  have a: "notifier_step True (False, st)
      = ((True, forward_all (get_pending_messages st) st), Some (get_pending_messages st))"
    by (simp add: notifier_step_def Let_def)
  have b: "notifier_step True (True, st) = ((True, st), None)" for st
    by (simp add: notifier_step_def)
  have c: "notifier_step False (seen, st) = ((False, st), None)" for seen st
    by (simp add: notifier_step_def)
  have d: "snd (notifier_run [True, True] (seen, st))
      = [if seen then None else Some (get_pending_messages st), None]"
    by (cases seen) (simp_all add: a b)
  have e: "snd (notifier_run [True, False, True] (False, st))
      = [Some (get_pending_messages st), None,
         Some (get_pending_messages (forward_all (get_pending_messages st) st))]"
    by (simp add: a c notifier_step_def Let_def)
  have f: "\<forall>i < length obs.
        (snd (notifier_run obs (seen, st)) ! i \<noteq> None)
          = (obs ! i \<and> \<not> (if i = 0 then seen else obs ! (i - 1)))"
    using notifier_run_edges by blast
  from a b c d e f notifier_run_length show ?thesis by blast
qed


theorem forwarding_once_per_edge_witness:
  "snd (notifier_run [True, True, False, True] (False, [ex_sos_row])) ! 0 \<noteq> None
   \<and> snd (notifier_run [True, True, False, True] (False, [ex_sos_row])) ! 1 = None
   \<and> snd (notifier_run [True, True, False, True] (False, [ex_sos_row])) ! 2 = None
   \<and> snd (notifier_run [True, True, False, True] (False, [ex_sos_row])) ! 3 \<noteq> None"
proof -
  let ?obs = "[True, True, False, True]"
  let ?outs = "snd (notifier_run ?obs (False, [ex_sos_row]))"
  from forwarding_once_per_edge [where obs = ?obs and seen = False and st = "[ex_sos_row]"]
  have edges: "\<forall>i < length ?obs.
      (?outs ! i \<noteq> None) = (?obs ! i \<and> \<not> (if i = 0 then False else ?obs ! (i - 1)))"
    by blast
  have "(?outs ! 0 \<noteq> None) = True" using edges [rule_format, of 0] by simp
  moreover have "(?outs ! 1 \<noteq> None) = False" using edges [rule_format, of 1] by simp
  moreover have "(?outs ! 2 \<noteq> None) = False" using edges [rule_format, of 2] by simp
  moreover have "(?outs ! 3 \<noteq> None) = True" using edges [rule_format, of 3] by simp
  ultimately show ?thesis by simp
qed

end
